theory Spec2Isabelle
  imports Complex_Main "HOL-Library.List_Lexorder" "HOL-Library.Char_ord"
begin

section \<open>The scheduler service: data model\<close>

text \<open>
  A shallow embedding of \<^verbatim>\<open>scheduler.go\<close> (the service built on \<^verbatim>\<open>ServiceBase\<close>) and of
  the functions of the stand-alone variant of the same program (type \<^verbatim>\<open>Scheduler\<close>,
  built by \<^verbatim>\<open>NewScheduler\<close>) that differ from it: \<^verbatim>\<open>getEnv\<close>, \<^verbatim>\<open>NewScheduler\<close> and
  \<^verbatim>\<open>sendAnalysisMessage\<close>.

  Time. A \<^verbatim>\<open>time.Time\<close> is the number of nanoseconds since the epoch, a
  \<^verbatim>\<open>time.Duration\<close> a number of nanoseconds; \<^verbatim>\<open>t.Add(d)\<close> is their sum. The two
  durations of the program, 24 and 168 hours, are far inside the range of \<^verbatim>\<open>int64\<close>.
\<close>

type_synonym Time = int
type_synonym Duration = int

definition Second :: Duration where
  "Second = 1000000000"

definition Minute :: Duration where
  "Minute = 60 * Second"

definition Hour :: Duration where
  "Hour = 60 * Minute"

definition Add :: "Time \<Rightarrow> Duration \<Rightarrow> Time" where
  "Add t d = t + d"

text \<open>
  JSON values: the contents of the \<^verbatim>\<open>jsonb\<close> columns, of an HTTP response body and of a
  queue message. An object read from a response lists its members as the text has them;
  a Go map, which has no order of its own, is given by its entries in key order, the
  order in which \<^verbatim>\<open>encoding/json\<close> writes it.
\<close>

datatype json =
    JNull
  | JBool bool
  | JNumber rat
  | JString string
  | JArray "json list"
  | JObject "(string \<times> json) list"

text \<open>
  The row type of table \<^verbatim>\<open>analysis\<close>. A Go pointer field is an \<open>option\<close>
  (\<open>None\<close> is \<^verbatim>\<open>nil\<close>, SQL \<^verbatim>\<open>NULL\<close>); the map \<^verbatim>\<open>Config\<close> may be \<^verbatim>\<open>nil\<close> too.
\<close>

record ScheduledAnalysis =
  ID :: string
  CreatedOn :: Time
  Config :: "(string \<times> json) list option"
  Stage :: int
  Status :: string
  Steps :: json
  StartedOn :: "Time option"
  EndedOn :: "Time option"
  Branch :: string
  Tag :: "string option"
  CommitHash :: "string option"
  ScheduleType :: "string option"
  NextScheduledRun :: "Time option"
  IsActive :: bool
  LastScheduledRun :: "Time option"
  ProjectID :: string
  AnalyzerID :: string
  OrganizationID :: string
  IntegrationID :: "string option"
  CreatedByID :: string

text \<open>
  Errors. The errors of the libraries are opaque (\<open>LibError\<close> with the library's text);
  the three errors that \<^verbatim>\<open>createAnalysisExecution\<close> builds with \<^verbatim>\<open>fmt.Errorf\<close> are kept apart.
\<close>

datatype error =
    LibError string
  | UnmarshalTypeError
  | FailedToCallAPI error
  | APIReturnedStatus int
  | FailedToDecodeResponse error

text \<open>
  An HTTP response: its status code and its body. The body is given by what
  \<^verbatim>\<open>json.NewDecoder(resp.Body)\<close> reads from it: \<open>Inr j\<close> when the stream starts with the
  JSON value \<open>j\<close>, \<open>Inl e\<close> when reading a value fails with \<open>e\<close> (end of input, a syntax
  error, a read error).
\<close>

record response =
  StatusCode :: int
  Body :: "error + json"

text \<open>
  The dynamic values that \<^verbatim>\<open>sendAnalysisMessage\<close> stores in its
  \<^verbatim>\<open>map[string]interface{}\<close>: a \<^verbatim>\<open>string\<close>, a \<^verbatim>\<open>*string\<close>, or the configuration map.
\<close>

datatype iface =
    GoString string
  | GoStringPtr "string option"
  | GoMap "(string \<times> json) list option"

text \<open>
  The effects the program issues, in the order it issues them. A call is recorded when
  it is made, whatever it returns. Log lines are not recorded.
\<close>

datatype event =
    HttpPost string string
      \<comment> \<open>\<^verbatim>\<open>http.Post(url, contentType, nil)\<close>\<close>
  | SendMessage string string
      \<comment> \<open>\<^verbatim>\<open>ServiceBase.SendMessage(queue, body)\<close>\<close>
  | QueueDeclare string bool bool bool bool
      \<comment> \<open>\<^verbatim>\<open>ch.QueueDeclare(name, durable, autoDelete, exclusive, noWait, nil)\<close>\<close>
  | Publish string string bool bool string string
      \<comment> \<open>\<^verbatim>\<open>ch.Publish(exchange, key, mandatory, immediate, {ContentType, Body})\<close>\<close>
  | DbUpdate string Time Time
      \<comment> \<open>the \<^verbatim>\<open>UPDATE\<close> of \<^verbatim>\<open>processAnalysis\<close>: id, last run, next run\<close>

text \<open>
  The world the service acts on: the rows of table \<^verbatim>\<open>analysis\<close>, the effects issued so
  far, and how often the clock has been read.
\<close>

record world =
  analysis_table :: "ScheduledAnalysis list"
  trace :: "event list"
  clock_reads :: nat

text \<open>
  What the collaborators answer. \<open>Now n\<close> is the value of the \<open>n\<close>-th call of
  \<^verbatim>\<open>time.Now()\<close>; every other component is the result of the library call of that name
  on the given arguments (\<open>None\<close> is a \<^verbatim>\<open>nil\<close> error). \<open>json_text\<close> is the part of
  \<^verbatim>\<open>json.Marshal\<close> that writes a JSON value as bytes.
\<close>

record env =
  Now :: "nat \<Rightarrow> Time"
  Scan :: "error option"
  Exec :: "string \<Rightarrow> error option"
  http_Post :: "string \<Rightarrow> error + response"
  json_text :: "json \<Rightarrow> error + string"
  base_SendMessage :: "string \<Rightarrow> string \<Rightarrow> error option"
  amqp_Dial :: "string \<Rightarrow> error option"
  conn_Channel :: "error option"
  ch_QueueDeclare :: "string \<Rightarrow> error option"
  ch_Publish :: "string \<Rightarrow> string \<Rightarrow> error option"

record 'b SchedulerService =
  ServiceBase :: 'b
  apiURL :: string

text \<open>
  The \<^verbatim>\<open>Scheduler\<close> of the stand-alone variant: fields \<^verbatim>\<open>db\<close> (given by the DSN it was
  opened with), \<^verbatim>\<open>amqpURL\<close>, \<^verbatim>\<open>queue\<close> and \<^verbatim>\<open>apiURL\<close>.
\<close>

record Scheduler =
  sched_db :: string
  sched_amqpURL :: string
  sched_queue :: string
  sched_apiURL :: string

section \<open>The functions of scheduler.go\<close>

definition time_Now :: "env \<Rightarrow> world \<Rightarrow> Time \<times> world" where
  "time_Now e w = (Now e (clock_reads w), w\<lparr>clock_reads := Suc (clock_reads w)\<rparr>)"

definition CreateSchedulerService ::
    "((string \<rightharpoonup> string) \<Rightarrow> error + 'b) \<Rightarrow> (string \<rightharpoonup> string) \<Rightarrow> error + 'b SchedulerService" where
  "CreateSchedulerService CreateServiceBase environ =
     (case CreateServiceBase environ of
        Inl err \<Rightarrow> Inl err
      | Inr base \<Rightarrow> Inr \<lparr>ServiceBase = base, apiURL = ''http://api:3000''\<rparr>)"

text \<open>
  The three \<^verbatim>\<open>Where\<close> clauses of the discovery query, in SQL's three-valued logic:
  a comparison with \<^verbatim>\<open>NULL\<close> is unknown (\<open>None\<close>), and a row is selected when the
  conjunction of the clauses is true.
\<close>

definition sql_and :: "bool option \<Rightarrow> bool option \<Rightarrow> bool option" where
  "sql_and p q =
     (if p = Some False \<or> q = Some False then Some False
      else if p = Some True \<and> q = Some True then Some True
      else None)"

definition where_is_active :: "ScheduledAnalysis \<Rightarrow> bool option" where
  "where_is_active a = Some (IsActive a = True)"

definition where_schedule_type :: "ScheduledAnalysis \<Rightarrow> bool option" where
  "where_schedule_type a = map_option (\<lambda>k. k \<in> set [''daily'', ''weekly'']) (ScheduleType a)"

definition where_next_scheduled_run :: "Time \<Rightarrow> ScheduledAnalysis \<Rightarrow> bool option" where
  "where_next_scheduled_run now a = map_option (\<lambda>t. t \<le> now) (NextScheduledRun a)"

definition select_due :: "ScheduledAnalysis list \<Rightarrow> Time \<Rightarrow> ScheduledAnalysis list" where
  "select_due rows now =
     filter (\<lambda>a. sql_and (sql_and (where_is_active a) (where_schedule_type a))
                         (where_next_scheduled_run now a) = Some True) rows"

text \<open>
  The \<^verbatim>\<open>UPDATE ... SET last_scheduled_run, next_scheduled_run WHERE id = ?\<close>: every row
  with the identifier gets the two times, as they are given; the other rows and columns
  stay. An \<^verbatim>\<open>Exec\<close> that returns an error has changed nothing.
\<close>

definition update_schedule ::
    "ScheduledAnalysis list \<Rightarrow> string \<Rightarrow> Time \<Rightarrow> Time \<Rightarrow> ScheduledAnalysis list" where
  "update_schedule rows ident now nextRun =
     map (\<lambda>r. if ID r = ident
              then r\<lparr>LastScheduledRun := Some now, NextScheduledRun := Some nextRun\<rparr>
              else r) rows"

definition calculateNextRun :: "string option \<Rightarrow> Time \<Rightarrow> Time" where
  "calculateNextRun scheduleType frm =
     (case scheduleType of
        None \<Rightarrow> Add frm (24 * Hour)
      | Some kind \<Rightarrow>
          if kind = ''daily'' then Add frm (24 * Hour)
          else if kind = ''weekly'' then Add frm (7 * 24 * Hour)
          else Add frm (24 * Hour))"

text \<open>
  \<^verbatim>\<open>Decode(&result)\<close> for \<^verbatim>\<open>result struct { ID string `json:"id"` }\<close>, by the rules of
  \<^verbatim>\<open>encoding/json\<close>: a key selects the field when it is \<^verbatim>\<open>id\<close> up to the case of its
  letters; a string is stored, \<^verbatim>\<open>null\<close> leaves the field as it is, any other value is an
  \<^verbatim>\<open>UnmarshalTypeError\<close>; keys that select no field are skipped, and a field no key
  selects keeps its zero value, the empty string. At top level \<^verbatim>\<open>null\<close> changes nothing
  and a value that is neither \<^verbatim>\<open>null\<close> nor an object is an \<^verbatim>\<open>UnmarshalTypeError\<close>.
\<close>

definition selects_id :: "string \<Rightarrow> bool" where
  "selects_id key = (key \<in> set [''id'', ''ID'', ''Id'', ''iD''])"

fun decode_fields :: "(string \<times> json) list \<Rightarrow> string \<Rightarrow> error + string" where
  "decode_fields [] cur = Inr cur"
| "decode_fields ((key, v) # kvs) cur =
     (if selects_id key then
        (case v of
           JString s \<Rightarrow> decode_fields kvs s
         | JNull \<Rightarrow> decode_fields kvs cur
         | _ \<Rightarrow> Inl UnmarshalTypeError)
      else decode_fields kvs cur)"

definition Decode_result :: "error + json \<Rightarrow> error + string" where
  "Decode_result body =
     (case body of
        Inl err \<Rightarrow> Inl err
      | Inr JNull \<Rightarrow> Inr ''''
      | Inr (JObject kvs) \<Rightarrow> decode_fields kvs ''''
      | Inr _ \<Rightarrow> Inl UnmarshalTypeError)"

definition execute_url :: "'b SchedulerService \<Rightarrow> ScheduledAnalysis \<Rightarrow> string" where
  "execute_url s analysis =
     apiURL s @ ''/org/'' @ OrganizationID analysis @ ''/projects/'' @ ProjectID analysis
       @ ''/analyses/'' @ ID analysis @ ''/execute''"

definition createAnalysisExecution ::
    "env \<Rightarrow> 'b SchedulerService \<Rightarrow> ScheduledAnalysis \<Rightarrow> world \<Rightarrow> (error + string) \<times> world" where
  "createAnalysisExecution e s analysis w =
     (let url = execute_url s analysis;
          w1 = w\<lparr>trace := trace w @ [HttpPost url ''application/json'']\<rparr>
      in case http_Post e url of
           Inl err \<Rightarrow> (Inl (FailedToCallAPI err), w1)
         | Inr resp \<Rightarrow>
             if StatusCode resp \<noteq> 201 then (Inl (APIReturnedStatus (StatusCode resp)), w1)
             else (case Decode_result (Body resp) of
                     Inl err \<Rightarrow> (Inl (FailedToDecodeResponse err), w1)
                   | Inr ident \<Rightarrow> (Inr ident, w1)))"

text \<open>
  \<^verbatim>\<open>json.Marshal\<close> on a \<^verbatim>\<open>map[string]interface{}\<close> with values of these types, by the
  rules of \<^verbatim>\<open>encoding/json\<close>: the map becomes an object whose members are the entries
  sorted by key; a string becomes a string, a \<^verbatim>\<open>nil\<close> pointer and a \<^verbatim>\<open>nil\<close> map become
  \<^verbatim>\<open>null\<close>, a pointer becomes what it points to, a map an object. The bytes of that
  value are written by \<open>json_text\<close>.
\<close>

definition json_of_iface :: "iface \<Rightarrow> json" where
  "json_of_iface v =
     (case v of
        GoString s \<Rightarrow> JString s
      | GoStringPtr None \<Rightarrow> JNull
      | GoStringPtr (Some s) \<Rightarrow> JString s
      | GoMap None \<Rightarrow> JNull
      | GoMap (Some m) \<Rightarrow> JObject m)"

definition message_document :: "(string \<times> iface) list \<Rightarrow> json" where
  "message_document message =
     JObject (map (\<lambda>(key, v). (key, json_of_iface v)) (sort_key fst message))"

definition json_Marshal :: "env \<Rightarrow> (string \<times> iface) list \<Rightarrow> error + string" where
  "json_Marshal e message = json_text e (message_document message)"

text \<open>
  The map literal of \<^verbatim>\<open>sendAnalysisMessage\<close>, entry by entry; it is the same in both
  variants.
\<close>

definition analysis_message :: "ScheduledAnalysis \<Rightarrow> string \<Rightarrow> (string \<times> iface) list" where
  "analysis_message analysis newAnalysisId =
     [(''analysis_id'', GoString newAnalysisId),
      (''project_id'', GoString (ProjectID analysis)),
      (''integration_id'', GoStringPtr (IntegrationID analysis)),
      (''organization_id'', GoString (OrganizationID analysis)),
      (''config'', GoMap (Config analysis))]"

definition sendAnalysisMessage ::
    "env \<Rightarrow> 'b SchedulerService \<Rightarrow> ScheduledAnalysis \<Rightarrow> string \<Rightarrow> world \<Rightarrow> error option \<times> world" where
  "sendAnalysisMessage e s analysis newAnalysisId w =
     (let message = analysis_message analysis newAnalysisId
      in case json_Marshal e message of
           Inl err \<Rightarrow> (Some err, w)
         | Inr body \<Rightarrow>
             (base_SendMessage e ''api_request'' body,
              w\<lparr>trace := trace w @ [SendMessage ''api_request'' body]\<rparr>))"

text \<open>
  \<^verbatim>\<open>processAnalysis\<close> returns nothing; the model returns which of its four exits was
  taken (each writes its own log line) and the world it leaves.
\<close>

datatype outcome =
    FailedToCreate error
  | FailedToSend string error
  | FailedToUpdate string error
  | Processed string Time

definition processAnalysis ::
    "env \<Rightarrow> 'b SchedulerService \<Rightarrow> ScheduledAnalysis \<Rightarrow> world \<Rightarrow> outcome \<times> world" where
  "processAnalysis e s analysis w =
     (case createAnalysisExecution e s analysis w of
        (Inl err, w1) \<Rightarrow> (FailedToCreate err, w1)
      | (Inr newAnalysisId, w1) \<Rightarrow>
          (case sendAnalysisMessage e s analysis newAnalysisId w1 of
             (Some err, w2) \<Rightarrow> (FailedToSend newAnalysisId err, w2)
           | (None, w2) \<Rightarrow>
               (let (now, w3) = time_Now e w2;
                    nextRun = calculateNextRun (ScheduleType analysis) now;
                    w4 = w3\<lparr>trace := trace w3 @ [DbUpdate (ID analysis) now nextRun]\<rparr>
                in case Exec e (ID analysis) of
                     Some err \<Rightarrow> (FailedToUpdate newAnalysisId err, w4)
                   | None \<Rightarrow>
                       (Processed newAnalysisId nextRun,
                        w4\<lparr>analysis_table :=
                             update_schedule (analysis_table w4) (ID analysis) now nextRun\<rparr>))))"

fun process_each ::
    "env \<Rightarrow> 'b SchedulerService \<Rightarrow> ScheduledAnalysis list \<Rightarrow> world \<Rightarrow> world" where
  "process_each e s [] w = w"
| "process_each e s (analysis # analyses) w =
     process_each e s analyses (snd (processAnalysis e s analysis w))"

definition processDueAnalyses :: "env \<Rightarrow> 'b SchedulerService \<Rightarrow> world \<Rightarrow> world" where
  "processDueAnalyses e s w =
     (let (now, w1) = time_Now e w
      in case Scan e of
           Some err \<Rightarrow> w1
         | None \<Rightarrow> process_each e s (select_due (analysis_table w1) now) w1)"

section \<open>The library call behind the dispatch\<close>





section \<open>The stand-alone variant: configuration and dispatch\<close>

text \<open>
  The variant without \<^verbatim>\<open>ServiceBase\<close> reads its configuration from the process
  environment and talks to the broker itself. Its \<^verbatim>\<open>processDueAnalyses\<close>,
  \<^verbatim>\<open>processAnalysis\<close>, \<^verbatim>\<open>createAnalysisExecution\<close> and \<^verbatim>\<open>calculateNextRun\<close> are those
  of scheduler.go, statement for statement. \<open>None\<close> is an unset variable, for which
  \<^verbatim>\<open>os.Getenv\<close> returns the empty string.
\<close>

definition os_Getenv :: "(string \<rightharpoonup> string) \<Rightarrow> string \<Rightarrow> string" where
  "os_Getenv environ key = (case environ key of None \<Rightarrow> '''' | Some v \<Rightarrow> v)"

definition getEnv :: "(string \<rightharpoonup> string) \<Rightarrow> string \<Rightarrow> string \<Rightarrow> string" where
  "getEnv environ key defaultValue =
     (let v = os_Getenv environ key in if v \<noteq> '''' then v else defaultValue)"

definition NewScheduler :: "(string \<rightharpoonup> string) \<Rightarrow> Scheduler" where
  "NewScheduler environ =
     (let host = getEnv environ ''PG_DB_HOST'' ''localhost'';
          port = getEnv environ ''PG_DB_PORT'' ''6432'';
          user = getEnv environ ''PG_DB_USER'' ''postgres'';
          password = getEnv environ ''PG_DB_PASSWORD'' ''password'';
          dbname = getEnv environ ''PG_DB_NAME'' ''codeclarity'';
          dsn = ''postgres://'' @ user @ '':'' @ password @ ''@'' @ host @ '':'' @ port
                  @ ''/'' @ dbname @ ''?sslmode=disable'';
          protocol = getEnv environ ''AMQP_PROTOCOL'' ''amqp'';
          amqpHost = getEnv environ ''AMQP_HOST'' ''localhost'';
          amqpPort = getEnv environ ''AMQP_PORT'' ''5672'';
          amqpUser = getEnv environ ''AMQP_USER'' ''guest'';
          amqpPassword = getEnv environ ''AMQP_PASSWORD'' ''guest'';
          amqpURL = protocol @ ''://'' @ amqpUser @ '':'' @ amqpPassword @ ''@'' @ amqpHost
                      @ '':'' @ amqpPort;
          queue = getEnv environ ''AMQP_ANALYSES_QUEUE'' ''api_request'';
          apiURL = getEnv environ ''API_BASE_URL'' ''http://localhost:3000''
      in \<lparr>sched_db = dsn, sched_amqpURL = amqpURL, sched_queue = queue, sched_apiURL = apiURL\<rparr>)"


section \<open>Sample data\<close>

definition item_A :: ScheduledAnalysis where
  "item_A =
     \<lparr>ID = ''A'', CreatedOn = 0, Config = Some [(''branch'', JString ''main'')], Stage = 0,
      Status = ''requested'', Steps = JArray [], StartedOn = None, EndedOn = None,
      Branch = ''main'', Tag = None, CommitHash = None, ScheduleType = Some ''daily'',
      NextScheduledRun = Some 1000, IsActive = True, LastScheduledRun = None,
      ProjectID = ''P1'', AnalyzerID = ''N1'', OrganizationID = ''O1'',
      IntegrationID = None, CreatedByID = ''U1''\<rparr>"

definition created_E1 :: response where
  "created_E1 = \<lparr>StatusCode = 201, Body = Inr (JObject [(''id'', JString ''E1'')])\<rparr>"

text \<open>
  A stand-in for the writer of \<^verbatim>\<open>json.Marshal\<close> that keeps the first member, the
  execution identifier, readable.
\<close>

definition marshal_id :: "json \<Rightarrow> error + string" where
  "marshal_id doc =
     (case doc of
        JObject ((key, JString ident) # members) \<Rightarrow> Inr (key @ ''='' @ ident)
      | _ \<Rightarrow> Inl (LibError ''unsupported type''))"

definition base_ok :: "(string \<rightharpoonup> string) \<Rightarrow> error + unit" where
  "base_ok environ = Inr ()"

definition env_ok :: env where
  "env_ok =
     \<lparr>Now = (\<lambda>n. 2000 + int n), Scan = None, Exec = (\<lambda>ident. None),
      http_Post = (\<lambda>url. Inr created_E1),
      json_text = marshal_id,
      base_SendMessage = (\<lambda>q body. None),
      amqp_Dial = (\<lambda>url. None), conn_Channel = None,
      ch_QueueDeclare = (\<lambda>q. None), ch_Publish = (\<lambda>q body. None)\<rparr>"

definition service_0 :: "unit SchedulerService" where
  "service_0 = \<lparr>ServiceBase = (), apiURL = ''http://api:3000''\<rparr>"

definition world_A :: world where
  "world_A = \<lparr>analysis_table = [item_A], trace = [], clock_reads = 0\<rparr>"

definition env_status_500 :: env where
  "env_status_500 =
     env_ok\<lparr>http_Post := (\<lambda>url. Inr \<lparr>StatusCode = 500, Body = Inl (LibError ''EOF'')\<rparr>)\<rparr>"

definition env_send_fails :: env where
  "env_send_fails = env_ok\<lparr>base_SendMessage := (\<lambda>q body. Some (LibError ''channel closed''))\<rparr>"

definition env_created_no_id :: env where
  "env_created_no_id =
     env_ok\<lparr>http_Post := (\<lambda>url. Inr \<lparr>StatusCode = 201, Body = Inr (JObject [])\<rparr>)\<rparr>"

definition env_created_number_id :: env where
  "env_created_number_id =
     env_ok\<lparr>http_Post :=
       (\<lambda>url. Inr \<lparr>StatusCode = 201, Body = Inr (JObject [(''id'', JNumber 7)])\<rparr>)\<rparr>"

definition rows_mixed :: "ScheduledAnalysis list" where
  "rows_mixed =
     [item_A,
      item_A\<lparr>ID := ''B'', IsActive := False\<rparr>,
      item_A\<lparr>ID := ''C'', NextScheduledRun := None\<rparr>,
      item_A\<lparr>ID := ''D'', NextScheduledRun := Some 9000\<rparr>,
      item_A\<lparr>ID := ''E'', ScheduleType := None\<rparr>,
      item_A\<lparr>ID := ''F'', ScheduleType := Some ''monthly''\<rparr>,
      item_A\<lparr>ID := ''G'', ScheduleType := Some ''weekly'', NextScheduledRun := Some 1500\<rparr>]"

definition environ_custom :: "string \<rightharpoonup> string" where
  "environ_custom = [''API_BASE_URL'' \<mapsto> ''http://example:9000'']"





text \<open>
  One row before and after a poll: it is as it was, or it was rescheduled to a next
  run strictly after the one it had.
\<close>

definition row_advanced :: "ScheduledAnalysis \<Rightarrow> ScheduledAnalysis \<Rightarrow> bool" where
  "row_advanced old new =
     (new = old \<or>
      (case (NextScheduledRun old, LastScheduledRun new, NextScheduledRun new) of
         (Some prev, Some lastRun, Some nxt) \<Rightarrow>
           prev < nxt \<and> new = old\<lparr>LastScheduledRun := Some lastRun, NextScheduledRun := Some nxt\<rparr>
       | _ \<Rightarrow> False))"

section \<open>Properties\<close>

lemma Hour_value: "Hour = 3600000000000"
  by (simp add: Hour_def Minute_def Second_def)

lemma due_clause:
  "(sql_and (sql_and (where_is_active a) (where_schedule_type a))
            (where_next_scheduled_run now a) = Some True) =
   (IsActive a \<and> (ScheduleType a = Some ''daily'' \<or> ScheduleType a = Some ''weekly'')
     \<and> (\<exists>t. NextScheduledRun a = Some t \<and> t \<le> now))"
proof (cases "ScheduleType a")
  case None
  then show ?thesis
    by (simp add: sql_and_def where_is_active_def where_schedule_type_def)
next
  case (Some k)
  show ?thesis
  proof (cases "NextScheduledRun a")
    case None
    then show ?thesis
      by (simp add: sql_and_def where_next_scheduled_run_def)
  next
    case (Some t)
    with \<open>ScheduleType a = Some k\<close> show ?thesis
      by (auto simp: sql_and_def where_is_active_def where_schedule_type_def
            where_next_scheduled_run_def)
  qed
qed

lemma select_due_filter:
  "select_due rows now =
     filter (\<lambda>a. IsActive a
                \<and> (ScheduleType a = Some ''daily'' \<or> ScheduleType a = Some ''weekly'')
                \<and> (\<exists>t. NextScheduledRun a = Some t \<and> t \<le> now)) rows"
  unfolding select_due_def by (simp only: due_clause)

lemma select_due_iff:
  "a \<in> set (select_due rows now) \<longleftrightarrow>
     a \<in> set rows \<and> IsActive a
     \<and> (ScheduleType a = Some ''daily'' \<or> ScheduleType a = Some ''weekly'')
     \<and> (\<exists>t. NextScheduledRun a = Some t \<and> t \<le> now)"
  by (simp add: select_due_filter)

lemma select_due_later:
  "a \<in> set (select_due rows now) \<Longrightarrow> now \<le> now' \<Longrightarrow> a \<in> set (select_due rows now')"
  by (auto simp: select_due_iff)

lemma calculateNextRun_eq:
  "calculateNextRun k frm = frm + (if k = Some ''weekly'' then 7 * 24 * Hour else 24 * Hour)"
  by (simp add: calculateNextRun_def Add_def split: option.splits)

lemma create_world:
  "snd (createAnalysisExecution e s a w) =
     w\<lparr>trace := trace w @ [HttpPost (execute_url s a) ''application/json'']\<rparr>"
  by (simp add: createAnalysisExecution_def Let_def split: sum.splits)

lemma process_create_failed:
  "createAnalysisExecution e s a w = (Inl err, w1) \<Longrightarrow>
   processAnalysis e s a w = (FailedToCreate err, w1)"
  by (simp add: processAnalysis_def)

lemma process_send_failed:
  "createAnalysisExecution e s a w = (Inr newId, w1) \<Longrightarrow>
   sendAnalysisMessage e s a newId w1 = (Some err, w2) \<Longrightarrow>
   processAnalysis e s a w = (FailedToSend newId err, w2)"
  by (simp add: processAnalysis_def)

lemma send_world:
  "sendAnalysisMessage e s a newId w = (r, w') \<Longrightarrow>
   analysis_table w' = analysis_table w \<and> clock_reads w' = clock_reads w
   \<and> (\<exists>evs. trace w' = trace w @ evs \<and> (\<forall>ev \<in> set evs. \<exists>q b. ev = SendMessage q b))"
  by (auto simp: sendAnalysisMessage_def Let_def split: sum.splits)

lemmas sample_defs = item_A_def created_E1_def env_ok_def service_0_def world_A_def
  marshal_id_def analysis_message_def json_Marshal_def message_document_def json_of_iface_def

text \<open>
  Claim C1. When \<^verbatim>\<open>createAnalysisExecution\<close> returns an error, \<^verbatim>\<open>processAnalysis\<close> stops at
  its first exit: the only effect is the HTTP call itself, no message is sent, no
  \<^verbatim>\<open>UPDATE\<close> is issued, the table (so \<^verbatim>\<open>last_scheduled_run\<close> and
  \<^verbatim>\<open>next_scheduled_run\<close> of every row) is as before, and an item that was due stays
  due for every later discovery query.
\<close>

theorem C1_trigger_failure_is_noop:
  assumes "createAnalysisExecution e s a w = (Inl err, w1)"
  shows "processAnalysis e s a w = (FailedToCreate err, w1)
       \<and> trace w1 = trace w @ [HttpPost (execute_url s a) ''application/json'']
       \<and> analysis_table w1 = analysis_table w
       \<and> clock_reads w1 = clock_reads w
       \<and> (\<forall>now now'. a \<in> set (select_due (analysis_table w) now) \<longrightarrow> now \<le> now'
             \<longrightarrow> a \<in> set (select_due (analysis_table w1) now'))"
proof -
  have w1: "w1 = w\<lparr>trace := trace w @ [HttpPost (execute_url s a) ''application/json'']\<rparr>"
    using create_world [of e s a w] assms by simp
  have out: "processAnalysis e s a w = (FailedToCreate err, w1)"
    using assms by (rule process_create_failed)
  have tab: "analysis_table w1 = analysis_table w"
    by (simp add: w1)
  show ?thesis
    using out tab select_due_later by (simp add: w1)
qed

theorem C1_trigger_failure_witness:
  "createAnalysisExecution env_status_500 service_0 item_A world_A =
     (Inl (APIReturnedStatus 500),
      world_A\<lparr>trace := [HttpPost ''http://api:3000/org/O1/projects/P1/analyses/A/execute''
                          ''application/json'']\<rparr>)
   \<and> processAnalysis env_status_500 service_0 item_A world_A =
     (FailedToCreate (APIReturnedStatus 500),
      world_A\<lparr>trace := [HttpPost ''http://api:3000/org/O1/projects/P1/analyses/A/execute''
                          ''application/json'']\<rparr>)
   \<and> item_A \<in> set (select_due (analysis_table world_A) 1500)
   \<and> item_A \<in> set (select_due (analysis_table
         (world_A\<lparr>trace := [HttpPost ''http://api:3000/org/O1/projects/P1/analyses/A/execute''
                          ''application/json'']\<rparr>)) 1560)"
proof -
  have h: "createAnalysisExecution env_status_500 service_0 item_A world_A =
     (Inl (APIReturnedStatus 500),
      world_A\<lparr>trace := [HttpPost ''http://api:3000/org/O1/projects/P1/analyses/A/execute''
                          ''application/json'']\<rparr>)"
    by (simp add: createAnalysisExecution_def execute_url_def env_status_500_def sample_defs)
  have d: "item_A \<in> set (select_due (analysis_table world_A) 1500)"
    by (simp add: select_due_iff sample_defs)
  from C1_trigger_failure_is_noop [OF h] h d show ?thesis
    by simp
qed

text \<open>
  Claim C2. When the execution was created but \<^verbatim>\<open>sendAnalysisMessage\<close> returns an error,
  \<^verbatim>\<open>processAnalysis\<close> stops at its second exit: beyond the HTTP call only send
  attempts were made, no \<^verbatim>\<open>UPDATE\<close> is issued, the clock is not read, the table is as
  before, and an item that was due stays due for every later discovery query.
\<close>

theorem C2_dispatch_failure_no_update:
  assumes "createAnalysisExecution e s a w = (Inr newId, w1)"
      and "sendAnalysisMessage e s a newId w1 = (Some err, w2)"
  shows "processAnalysis e s a w = (FailedToSend newId err, w2)
       \<and> analysis_table w2 = analysis_table w
       \<and> clock_reads w2 = clock_reads w
       \<and> (\<exists>evs. trace w2 = trace w @ HttpPost (execute_url s a) ''application/json'' # evs
                \<and> (\<forall>ev \<in> set evs. \<exists>q b. ev = SendMessage q b))
       \<and> (\<forall>now now'. a \<in> set (select_due (analysis_table w) now) \<longrightarrow> now \<le> now'
             \<longrightarrow> a \<in> set (select_due (analysis_table w2) now'))"
proof -
  have w1: "w1 = w\<lparr>trace := trace w @ [HttpPost (execute_url s a) ''application/json'']\<rparr>"
    using create_world [of e s a w] assms(1) by simp
  have out: "processAnalysis e s a w = (FailedToSend newId err, w2)"
    using assms by (rule process_send_failed)
  from send_world [OF assms(2)] obtain evs where
    tab: "analysis_table w2 = analysis_table w1" and clk: "clock_reads w2 = clock_reads w1"
    and tr: "trace w2 = trace w1 @ evs" and evs: "\<forall>ev \<in> set evs. \<exists>q b. ev = SendMessage q b"
    by blast
  have tab': "analysis_table w2 = analysis_table w"
    using tab by (simp add: w1)
  have clk': "clock_reads w2 = clock_reads w"
    using clk by (simp add: w1)
  have tr': "trace w2 = trace w @ HttpPost (execute_url s a) ''application/json'' # evs"
    using tr by (simp add: w1)
  have due: "\<forall>now now'. a \<in> set (select_due (analysis_table w) now) \<longrightarrow> now \<le> now'
             \<longrightarrow> a \<in> set (select_due (analysis_table w2) now')"
    using select_due_later by (simp add: tab')
  from out tab' clk' tr' evs due show ?thesis
    by blast
qed

theorem C2_dispatch_failure_witness:
  "createAnalysisExecution env_send_fails service_0 item_A world_A =
     (Inr ''E1'',
      world_A\<lparr>trace := [HttpPost ''http://api:3000/org/O1/projects/P1/analyses/A/execute''
                          ''application/json'']\<rparr>)
   \<and> processAnalysis env_send_fails service_0 item_A world_A =
     (FailedToSend ''E1'' (LibError ''channel closed''),
      world_A\<lparr>trace := [HttpPost ''http://api:3000/org/O1/projects/P1/analyses/A/execute''
                          ''application/json'', SendMessage ''api_request'' ''analysis_id=E1'']\<rparr>)
   \<and> analysis_table (world_A\<lparr>trace := [HttpPost ''http://api:3000/org/O1/projects/P1/analyses/A/execute''
                          ''application/json'', SendMessage ''api_request'' ''analysis_id=E1'']\<rparr>) = [item_A]
   \<and> item_A \<in> set (select_due [item_A] 1560)"
proof -
  have h1: "createAnalysisExecution env_send_fails service_0 item_A world_A =
     (Inr ''E1'',
      world_A\<lparr>trace := [HttpPost ''http://api:3000/org/O1/projects/P1/analyses/A/execute''
                          ''application/json'']\<rparr>)"
    by (simp add: createAnalysisExecution_def execute_url_def Decode_result_def
          selects_id_def env_send_fails_def sample_defs)
  have h2: "sendAnalysisMessage env_send_fails service_0 item_A ''E1''
       (world_A\<lparr>trace := [HttpPost ''http://api:3000/org/O1/projects/P1/analyses/A/execute''
                          ''application/json'']\<rparr>) =
     (Some (LibError ''channel closed''),
      world_A\<lparr>trace := [HttpPost ''http://api:3000/org/O1/projects/P1/analyses/A/execute''
                          ''application/json'', SendMessage ''api_request'' ''analysis_id=E1'']\<rparr>)"
    by (simp add: sendAnalysisMessage_def env_send_fails_def sample_defs)
  have d: "item_A \<in> set (select_due (analysis_table world_A) 1500)"
    by (simp add: select_due_iff sample_defs)
  have t: "analysis_table world_A = [item_A]"
    by (simp add: world_A_def)
  from C2_dispatch_failure_no_update [OF h1 h2] h1 d t show ?thesis
    by auto
qed

text \<open>
  Claim C3. For every table and every query time, the discovery query returns exactly
  the rows, in table order, that are active, whose schedule type is \<^verbatim>\<open>daily\<close> or
  \<^verbatim>\<open>weekly\<close>, and whose next run is present and not after the query time. A row that
  is inactive, or whose next run is \<^verbatim>\<open>NULL\<close> or in the future, is therefore not
  returned.
\<close>

theorem C3_discovery_returns_exactly_eligible:
  "select_due rows now =
     filter (\<lambda>a. IsActive a
                \<and> (ScheduleType a = Some ''daily'' \<or> ScheduleType a = Some ''weekly'')
                \<and> (\<exists>t. NextScheduledRun a = Some t \<and> t \<le> now)) rows"
  unfolding select_due_def by (simp only: due_clause)

theorem C3_discovery_witness:
  "select_due rows_mixed 2000 =
     [item_A, item_A\<lparr>ID := ''G'', ScheduleType := Some ''weekly'', NextScheduledRun := Some 1500\<rparr>]"
  using C3_discovery_returns_exactly_eligible [of rows_mixed 2000]
  by (simp add: rows_mixed_def item_A_def)

text \<open>
  Claim C4. \<^verbatim>\<open>calculateNextRun\<close> is total: it returns \<open>frm\<close> plus 168 hours for
  \<^verbatim>\<open>weekly\<close> and \<open>frm\<close> plus 24 hours for \<^verbatim>\<open>daily\<close>, for \<^verbatim>\<open>nil\<close> and for every other
  string.
\<close>

theorem C4_calculateNextRun_intervals:
  "calculateNextRun scheduleType frm =
     frm + (if scheduleType = Some ''weekly'' then 7 * 24 * Hour else 24 * Hour)
   \<and> 24 * Hour = 86400 * Second \<and> 7 * 24 * Hour = 604800 * Second
   \<and> Second = 1000000000"
  by (simp add: calculateNextRun_def Add_def Hour_def Minute_def Second_def split: option.splits)

theorem C4_calculateNextRun_witness:
  "calculateNextRun (Some ''daily'') 5 = 86400000000005
   \<and> calculateNextRun (Some ''weekly'') 5 = 604800000000005
   \<and> calculateNextRun None 5 = 86400000000005
   \<and> calculateNextRun (Some ''monthly'') 5 = 86400000000005"
  using C4_calculateNextRun_intervals [of "Some ''daily''" 5]
    C4_calculateNextRun_intervals [of "Some ''weekly''" 5]
    C4_calculateNextRun_intervals [of None 5]
    C4_calculateNextRun_intervals [of "Some ''monthly''" 5]
  by simp

lemma process_ok_cases:
  assumes "processAnalysis e s a w = (Processed newId nextRun, w')"
  shows "\<exists>w2. fst (createAnalysisExecution e s a w) = Inr newId
          \<and> sendAnalysisMessage e s a newId (snd (createAnalysisExecution e s a w)) = (None, w2)
          \<and> Exec e (ID a) = None
          \<and> nextRun = calculateNextRun (ScheduleType a) (Now e (clock_reads w2))
          \<and> w' = w2\<lparr>clock_reads := Suc (clock_reads w2),
                     trace := trace w2 @ [DbUpdate (ID a) (Now e (clock_reads w2)) nextRun],
                     analysis_table := update_schedule (analysis_table w2) (ID a)
                                         (Now e (clock_reads w2)) nextRun\<rparr>"
  using assms
  by (auto simp: processAnalysis_def time_Now_def Let_def
        split: prod.splits sum.splits option.splits)

lemma process_ok_table:
  assumes "processAnalysis e s a w = (Processed newId nextRun, w')"
  shows "nextRun = calculateNextRun (ScheduleType a) (Now e (clock_reads w))
       \<and> analysis_table w' =
           update_schedule (analysis_table w) (ID a) (Now e (clock_reads w)) nextRun"
proof -
  from process_ok_cases [OF assms] obtain w2 where
    snd: "sendAnalysisMessage e s a newId (snd (createAnalysisExecution e s a w)) = (None, w2)"
    and nr: "nextRun = calculateNextRun (ScheduleType a) (Now e (clock_reads w2))"
    and w': "w' = w2\<lparr>clock_reads := Suc (clock_reads w2),
                     trace := trace w2 @ [DbUpdate (ID a) (Now e (clock_reads w2)) nextRun],
                     analysis_table := update_schedule (analysis_table w2) (ID a)
                                         (Now e (clock_reads w2)) nextRun\<rparr>"
    by blast
  from send_world [OF snd] have "analysis_table w2 = analysis_table w"
    and "clock_reads w2 = clock_reads w"
    by (simp_all add: create_world)
  with nr w' show ?thesis by simp
qed

lemma update_schedule_hit:
  assumes "r \<in> set (update_schedule rows ident now nextRun)" and "ID r = ident"
  shows "LastScheduledRun r = Some now \<and> NextScheduledRun r = Some nextRun"
proof -
  from assms(1) obtain r0 where r0: "r0 \<in> set rows"
    and r: "r = (if ID r0 = ident
                 then r0\<lparr>LastScheduledRun := Some now, NextScheduledRun := Some nextRun\<rparr>
                 else r0)"
    unfolding update_schedule_def by (auto simp only: set_map image_iff)
  show ?thesis
  proof (cases "ID r0 = ident")
    case True
    with r show ?thesis by simp
  next
    case False
    with r have "r = r0" by simp
    with False assms(2) show ?thesis by simp
  qed
qed

lemma update_schedule_self:
  assumes "a \<in> set rows"
  shows "a\<lparr>LastScheduledRun := Some now, NextScheduledRun := Some nextRun\<rparr>
           \<in> set (update_schedule rows (ID a) now nextRun)"
proof -
  have "(\<lambda>r. if ID r = ID a
             then r\<lparr>LastScheduledRun := Some now, NextScheduledRun := Some nextRun\<rparr>
             else r) a
        \<in> (\<lambda>r. if ID r = ID a
             then r\<lparr>LastScheduledRun := Some now, NextScheduledRun := Some nextRun\<rparr>
             else r) ` set rows"
    using assms by (rule imageI)
  then show ?thesis
    unfolding update_schedule_def by (simp only: set_map if_True simp_thms)
qed

lemma update_schedule_other:
  assumes "r \<in> set rows" and "ID r \<noteq> ident"
  shows "r \<in> set (update_schedule rows ident now nextRun)"
proof -
  have "(\<lambda>r. if ID r = ident
             then r\<lparr>LastScheduledRun := Some now, NextScheduledRun := Some nextRun\<rparr>
             else r) r
        \<in> (\<lambda>r. if ID r = ident
             then r\<lparr>LastScheduledRun := Some now, NextScheduledRun := Some nextRun\<rparr>
             else r) ` set rows"
    using assms(1) by (rule imageI)
  then show ?thesis
    unfolding update_schedule_def using assms(2) by (simp only: set_map if_False)
qed

lemma Hour_pos: "0 < Hour"
  by (simp add: Hour_def Minute_def Second_def)


lemma process_ok_item_A:
  "processAnalysis env_ok service_0 item_A world_A =
     (Processed ''E1'' (2000 + 24 * Hour),
      \<lparr>analysis_table = [item_A\<lparr>LastScheduledRun := Some 2000,
                                 NextScheduledRun := Some (2000 + 24 * Hour)\<rparr>],
       trace = [HttpPost ''http://api:3000/org/O1/projects/P1/analyses/A/execute''
                  ''application/json'',
                SendMessage ''api_request'' ''analysis_id=E1'',
                DbUpdate ''A'' 2000 (2000 + 24 * Hour)],
       clock_reads = 1\<rparr>)"
  by (simp add: processAnalysis_def createAnalysisExecution_def execute_url_def
        Decode_result_def selects_id_def sendAnalysisMessage_def time_Now_def
        calculateNextRun_def Add_def update_schedule_def Let_def sample_defs)



text \<open>
  Claim C6. After a successful \<^verbatim>\<open>processAnalysis\<close>, every row with the item's identifier
  has \<^verbatim>\<open>last_scheduled_run\<close> equal to the one reading of the clock and
  \<^verbatim>\<open>next_scheduled_run\<close> equal to that reading plus 168 hours when the item's schedule
  type is \<^verbatim>\<open>weekly\<close>, plus 24 hours otherwise (\<^verbatim>\<open>daily\<close>, absent, unknown).
\<close>

theorem C6_next_run_is_last_run_plus_interval:
  assumes ok: "processAnalysis e s a w = (Processed newId nextRun, w')"
  shows "(\<forall>r \<in> set (analysis_table w'). ID r = ID a \<longrightarrow>
            LastScheduledRun r = Some (Now e (clock_reads w))
            \<and> NextScheduledRun r =
                Some (Now e (clock_reads w)
                      + (if ScheduleType a = Some ''weekly'' then 168 * Hour else 24 * Hour)))
       \<and> (a \<in> set (analysis_table w) \<longrightarrow> (\<exists>r \<in> set (analysis_table w'). ID r = ID a))
       \<and> nextRun = Now e (clock_reads w)
                    + (if ScheduleType a = Some ''weekly'' then 168 * Hour else 24 * Hour)"
proof -
  from process_ok_table [OF ok]
  have nr: "nextRun = calculateNextRun (ScheduleType a) (Now e (clock_reads w))"
    and tab: "analysis_table w' =
           update_schedule (analysis_table w) (ID a) (Now e (clock_reads w)) nextRun"
    by simp_all
  have nr': "nextRun = Now e (clock_reads w)
                    + (if ScheduleType a = Some ''weekly'' then 168 * Hour else 24 * Hour)"
    by (simp add: nr calculateNextRun_eq)
  have hit: "\<forall>r \<in> set (analysis_table w'). ID r = ID a \<longrightarrow>
            LastScheduledRun r = Some (Now e (clock_reads w))
            \<and> NextScheduledRun r = Some nextRun"
    unfolding tab using update_schedule_hit by blast
  have ex: "a \<in> set (analysis_table w) \<longrightarrow> (\<exists>r \<in> set (analysis_table w'). ID r = ID a)"
  proof
    assume "a \<in> set (analysis_table w)"
    then have "a\<lparr>LastScheduledRun := Some (Now e (clock_reads w)),
                 NextScheduledRun := Some nextRun\<rparr> \<in> set (analysis_table w')"
      unfolding tab by (rule update_schedule_self)
    then show "\<exists>r \<in> set (analysis_table w'). ID r = ID a"
      by (rule rev_bexI) simp
  qed
  from hit ex nr' show ?thesis by simp
qed

theorem C6_next_run_witness:
  "fst (processAnalysis env_ok service_0 item_A world_A) = Processed ''E1'' (2000 + 24 * Hour)
   \<and> analysis_table (snd (processAnalysis env_ok service_0 item_A world_A)) =
       [item_A\<lparr>LastScheduledRun := Some 2000, NextScheduledRun := Some (2000 + 24 * Hour)\<rparr>]
   \<and> item_A \<in> set (analysis_table world_A)
   \<and> ScheduleType item_A = Some ''daily''
   \<and> Now env_ok (clock_reads world_A) = 2000
   \<and> (\<exists>r \<in> set (analysis_table (snd (processAnalysis env_ok service_0 item_A world_A))).
         ID r = ID item_A)"
proof -
  have row: "item_A \<in> set (analysis_table world_A)"
    by (simp add: world_A_def)
  have kind: "ScheduleType item_A = Some ''daily''"
    by (simp add: item_A_def)
  have now: "Now env_ok (clock_reads world_A) = 2000"
    by (simp add: env_ok_def world_A_def)
  have out: "fst (processAnalysis env_ok service_0 item_A world_A)
               = Processed ''E1'' (2000 + 24 * Hour)"
    by (simp add: process_ok_item_A)
  have tab: "analysis_table (snd (processAnalysis env_ok service_0 item_A world_A)) =
       [item_A\<lparr>LastScheduledRun := Some 2000, NextScheduledRun := Some (2000 + 24 * Hour)\<rparr>]"
    by (simp add: process_ok_item_A)
  from C6_next_run_is_last_run_plus_interval [OF process_ok_item_A] row
  have "\<exists>r \<in> set (analysis_table (snd (processAnalysis env_ok service_0 item_A world_A))).
         ID r = ID item_A"
    by (simp add: tab)
  with row kind now out tab show ?thesis
    by (intro conjI)
qed

subsection \<open>A whole poll\<close>

text \<open>
  The premises of the reschedule property hold in the poll loop. When the identifiers
  in the table are distinct (the column is the primary key) and the clock does not run
  backwards, one run of \<^verbatim>\<open>processDueAnalyses\<close> leaves every row as it was or moves its
  next run strictly forward.
\<close>

lemma row_advanced_refl: "row_advanced r r"
  by (simp add: row_advanced_def)

lemma row_advanced_update:
  "NextScheduledRun a = Some prev \<Longrightarrow> prev < nxt \<Longrightarrow>
   row_advanced a (a\<lparr>LastScheduledRun := Some lastRun, NextScheduledRun := Some nxt\<rparr>)"
  by (simp add: row_advanced_def)

lemma row_advanced_cases:
  assumes "row_advanced old new"
  obtains "new = old"
  | prev lastRun nxt where "NextScheduledRun old = Some prev" "prev < nxt"
      "new = old\<lparr>LastScheduledRun := Some lastRun, NextScheduledRun := Some nxt\<rparr>"
  using assms unfolding row_advanced_def
  by (auto split: option.splits)

lemma row_advanced_trans:
  assumes "row_advanced r1 r2" and "row_advanced r2 r3"
  shows "row_advanced r1 r3"
proof (rule row_advanced_cases [OF assms(1)])
  assume "r2 = r1"
  with assms(2) show ?thesis by simp
next
  fix p l n
  assume 1: "NextScheduledRun r1 = Some p" "p < n"
    "r2 = r1\<lparr>LastScheduledRun := Some l, NextScheduledRun := Some n\<rparr>"
  show ?thesis
  proof (rule row_advanced_cases [OF assms(2)])
    assume "r3 = r2"
    with assms(1) show ?thesis by simp
  next
    fix p' l' n'
    assume 2: "NextScheduledRun r2 = Some p'" "p' < n'"
      "r3 = r2\<lparr>LastScheduledRun := Some l', NextScheduledRun := Some n'\<rparr>"
    from 1(3) 2(1) have "p' = n" by simp
    with 1(2) 2(2) have lt: "p < n'" by simp
    from 1(3) 2(3) have "r3 = r1\<lparr>LastScheduledRun := Some l', NextScheduledRun := Some n'\<rparr>"
      by simp
    with 1(1) lt show ?thesis by (simp add: row_advanced_update)
  qed
qed

lemma create_keeps:
  "createAnalysisExecution e s a w = (r, w1) \<Longrightarrow>
   analysis_table w1 = analysis_table w \<and> clock_reads w1 = clock_reads w"
  using create_world [of e s a w] by simp

lemma process_effect:
  assumes "processAnalysis e s a w = (out, w')"
  shows "clock_reads w \<le> clock_reads w'
       \<and> (analysis_table w' = analysis_table w
            \<or> analysis_table w' =
                update_schedule (analysis_table w) (ID a) (Now e (clock_reads w))
                  (calculateNextRun (ScheduleType a) (Now e (clock_reads w))))"
proof -
  obtain r w1 where c: "createAnalysisExecution e s a w = (r, w1)"
    by (cases "createAnalysisExecution e s a w")
  note k1 = create_keeps [OF c]
  show ?thesis
  proof (cases r)
    case (Inl err)
    with c assms have "w' = w1" by (simp add: processAnalysis_def)
    with k1 show ?thesis by simp
  next
    case (Inr newId)
    obtain r2 w2 where sd: "sendAnalysisMessage e s a newId w1 = (r2, w2)"
      by (cases "sendAnalysisMessage e s a newId w1")
    from send_world [OF sd] k1
    have k2: "analysis_table w2 = analysis_table w" "clock_reads w2 = clock_reads w"
      by simp_all
    show ?thesis
    proof (cases r2)
      case (Some err)
      with c Inr sd assms have "w' = w2" by (simp add: processAnalysis_def)
      with k2 show ?thesis by simp
    next
      case None
      show ?thesis
      proof (cases "Exec e (ID a)")
        case (Some err)
        with c Inr sd None assms k2 show ?thesis
          by (auto simp: processAnalysis_def time_Now_def Let_def)
      next
        case Exec_ok: None
        with c Inr sd None assms k2 show ?thesis
          by (auto simp: processAnalysis_def time_Now_def Let_def)
      qed
    qed
  qed
qed

lemma update_schedule_ids:
  "map ID (update_schedule rows ident now nextRun) = map ID rows"
  by (simp add: update_schedule_def)

lemma update_schedule_advances:
  assumes dist: "distinct (map ID rows)" and row: "a \<in> set rows"
      and prev: "NextScheduledRun a = Some p" and lt: "p < nextRun"
  shows "list_all2 row_advanced rows (update_schedule rows (ID a) now nextRun)"
proof -
  have "row_advanced r
          (if ID r = ID a
           then r\<lparr>LastScheduledRun := Some now, NextScheduledRun := Some nextRun\<rparr>
           else r)" if "r \<in> set rows" for r
  proof (cases "ID r = ID a")
    case True
    from dist have "inj_on ID (set rows)"
      by (simp add: distinct_map)
    with True that row have "r = a"
      by (simp add: inj_on_def)
    with True prev lt show ?thesis
      by (simp add: row_advanced_update)
  next
    case False
    then show ?thesis by (simp add: row_advanced_refl)
  qed
  then show ?thesis
    unfolding update_schedule_def by (simp add: list_all2_map2 list_all2_same)
qed

lemma list_all2_row_advanced_refl: "list_all2 row_advanced rows rows"
  by (simp add: list_all2_same row_advanced_refl)

lemma list_all2_row_advanced_trans:
  "list_all2 row_advanced xs ys \<Longrightarrow> list_all2 row_advanced ys zs \<Longrightarrow>
   list_all2 row_advanced xs zs"
  using row_advanced_trans by (rule list_all2_trans)

lemma process_each_advances:
  assumes "\<forall>k \<ge> clock_reads w. nq \<le> Now e k"
      and "distinct (map ID (analysis_table w))"
      and "distinct (map ID items)"
      and "set items \<subseteq> set (analysis_table w)"
      and "\<forall>a \<in> set items. \<exists>p. NextScheduledRun a = Some p \<and> p \<le> nq"
  shows "list_all2 row_advanced (analysis_table w) (analysis_table (process_each e s items w))"
  using assms
proof (induction items arbitrary: w)
  case Nil
  show ?case by (simp add: list_all2_row_advanced_refl)
next
  case (Cons a items)
  obtain out w' where pa: "processAnalysis e s a w = (out, w')"
    by (cases "processAnalysis e s a w")
  from process_effect [OF pa]
  have clk: "clock_reads w \<le> clock_reads w'"
    and tab: "analysis_table w' = analysis_table w
            \<or> analysis_table w' =
                update_schedule (analysis_table w) (ID a) (Now e (clock_reads w))
                  (calculateNextRun (ScheduleType a) (Now e (clock_reads w)))"
    by simp_all
  from Cons.prems(4) have row: "a \<in> set (analysis_table w)" by simp
  from Cons.prems(5) obtain p where p: "NextScheduledRun a = Some p" "p \<le> nq" by auto
  from Cons.prems(1) have "nq \<le> Now e (clock_reads w)" by simp
  moreover have "Now e (clock_reads w) < calculateNextRun (ScheduleType a) (Now e (clock_reads w))"
    using Hour_pos by (simp add: calculateNextRun_eq)
  ultimately have lt: "p < calculateNextRun (ScheduleType a) (Now e (clock_reads w))"
    using p(2) by simp
  have step: "list_all2 row_advanced (analysis_table w) (analysis_table w')"
    using tab
  proof
    assume "analysis_table w' = analysis_table w"
    then show ?thesis by (simp add: list_all2_row_advanced_refl)
  next
    assume u: "analysis_table w' =
                update_schedule (analysis_table w) (ID a) (Now e (clock_reads w))
                  (calculateNextRun (ScheduleType a) (Now e (clock_reads w)))"
    show ?thesis
      unfolding u using Cons.prems(2) row p(1) lt by (rule update_schedule_advances)
  qed
  have 1: "\<forall>k \<ge> clock_reads w'. nq \<le> Now e k"
    using Cons.prems(1) clk by simp
  have 2: "distinct (map ID (analysis_table w'))"
    using tab Cons.prems(2) by (auto simp: update_schedule_ids)
  have 3: "distinct (map ID items)"
    using Cons.prems(3) by simp
  have 4: "set items \<subseteq> set (analysis_table w')"
  proof
    fix r
    assume r: "r \<in> set items"
    with Cons.prems(4) have rt: "r \<in> set (analysis_table w)" by auto
    from Cons.prems(3) have "ID a \<notin> ID ` set items" by simp
    with r have ne: "ID r \<noteq> ID a" by (metis imageI)
    from tab show "r \<in> set (analysis_table w')"
    proof
      assume "analysis_table w' = analysis_table w"
      with rt show ?thesis by simp
    next
      assume u: "analysis_table w' =
                update_schedule (analysis_table w) (ID a) (Now e (clock_reads w))
                  (calculateNextRun (ScheduleType a) (Now e (clock_reads w)))"
      show ?thesis
        unfolding u using rt ne by (rule update_schedule_other)
    qed
  qed
  have 5: "\<forall>a \<in> set items. \<exists>p. NextScheduledRun a = Some p \<and> p \<le> nq"
    using Cons.prems(5) by simp
  from Cons.IH [OF 1 2 3 4 5]
  have rest: "list_all2 row_advanced (analysis_table w')
                (analysis_table (process_each e s items w'))" .
  from step rest
  have "list_all2 row_advanced (analysis_table w) (analysis_table (process_each e s items w'))"
    by (rule list_all2_row_advanced_trans)
  then show ?case
    by (simp add: pa)
qed

lemma poll_advances_next_run:
  assumes dist: "distinct (map ID (analysis_table w))"
      and mono: "\<forall>i j. i \<le> j \<longrightarrow> Now e i \<le> Now e j"
  shows "list_all2 row_advanced (analysis_table w) (analysis_table (processDueAnalyses e s w))"
proof (cases "Scan e")
  case (Some err)
  then show ?thesis
    by (simp add: processDueAnalyses_def time_Now_def list_all2_row_advanced_refl)
next
  case None
  let ?nq = "Now e (clock_reads w)"
  let ?w1 = "w\<lparr>clock_reads := Suc (clock_reads w)\<rparr>"
  let ?items = "select_due (analysis_table w) ?nq"
  have 1: "\<forall>k \<ge> clock_reads ?w1. ?nq \<le> Now e k"
    using mono by simp
  have 2: "distinct (map ID (analysis_table ?w1))"
    using dist by simp
  have 3: "distinct (map ID ?items)"
    unfolding select_due_def using dist by (rule distinct_map_filter)
  have 4: "set ?items \<subseteq> set (analysis_table ?w1)"
    by (auto simp: select_due_iff)
  have 5: "\<forall>a \<in> set ?items. \<exists>p. NextScheduledRun a = Some p \<and> p \<le> ?nq"
    by (auto simp: select_due_iff)
  from process_each_advances [OF 1 2 3 4 5, of s]
  have "list_all2 row_advanced (analysis_table w)
          (analysis_table (process_each e s ?items ?w1))"
    by simp
  with None show ?thesis
    by (simp add: processDueAnalyses_def time_Now_def)
qed

subsection \<open>Dispatch, configuration, discovery and decoding\<close>








lemma CreateSchedulerService_apiURL:
  "CreateSchedulerService CreateServiceBase environ = Inr s \<Longrightarrow> apiURL s = ''http://api:3000''"
  by (auto simp: CreateSchedulerService_def split: sum.splits)

lemma NewScheduler_apiURL:
  "sched_apiURL (NewScheduler environ) = getEnv environ ''API_BASE_URL'' ''http://localhost:3000''"
  by (simp add: NewScheduler_def Let_def)

text \<open>
  Claim C8. The base URL of the execution-creation call is supplied by the environment,
  with a documented default. \<^verbatim>\<open>CreateSchedulerService\<close> does not do so: with
  \<^verbatim>\<open>API_BASE_URL\<close> set, the service still uses the literal \<^verbatim>\<open>http://api:3000\<close>, which
  is not the documented default \<^verbatim>\<open>http://localhost:3000\<close> either. \<^verbatim>\<open>NewScheduler\<close>, on
  the same environment, takes the variable, and the default when it is unset.
\<close>

theorem C8_apiURL_is_not_read_from_environment:
  "CreateSchedulerService base_ok environ_custom =
     Inr \<lparr>ServiceBase = (), apiURL = ''http://api:3000''\<rparr>
   \<and> sched_apiURL (NewScheduler environ_custom) = ''http://example:9000''
   \<and> sched_apiURL (NewScheduler Map.empty) = ''http://localhost:3000''"
  by (simp add: CreateSchedulerService_def base_ok_def NewScheduler_apiURL getEnv_def
        os_Getenv_def environ_custom_def)

text \<open>
  Claim C9. When the discovery query succeeds, \<^verbatim>\<open>processDueAnalyses\<close> runs
  \<^verbatim>\<open>processAnalysis\<close> on the selected rows and on nothing else, and every selected row
  has a schedule type that is present and is \<^verbatim>\<open>daily\<close> or \<^verbatim>\<open>weekly\<close>: for these rows
  neither the \<^verbatim>\<open>nil\<close> test nor the \<^verbatim>\<open>default\<close> case of \<^verbatim>\<open>calculateNextRun\<close> applies.
\<close>

theorem C9_discovery_excludes_fallback_kinds:
  assumes "Scan e = None"
  shows "processDueAnalyses e s w =
           process_each e s (select_due (analysis_table w) (Now e (clock_reads w)))
             (w\<lparr>clock_reads := Suc (clock_reads w)\<rparr>)
       \<and> (\<forall>a \<in> set (select_due (analysis_table w) (Now e (clock_reads w))).
            ScheduleType a \<noteq> None
            \<and> (ScheduleType a = Some ''daily'' \<or> ScheduleType a = Some ''weekly'')
            \<and> (\<forall>t. calculateNextRun (ScheduleType a) t =
                      (if ScheduleType a = Some ''daily'' then t + 24 * Hour
                       else t + 7 * 24 * Hour)))"
proof -
  have run: "processDueAnalyses e s w =
           process_each e s (select_due (analysis_table w) (Now e (clock_reads w)))
             (w\<lparr>clock_reads := Suc (clock_reads w)\<rparr>)"
    using assms by (simp add: processDueAnalyses_def time_Now_def)
  have kinds: "\<forall>a \<in> set (select_due (analysis_table w) (Now e (clock_reads w))).
            ScheduleType a \<noteq> None
            \<and> (ScheduleType a = Some ''daily'' \<or> ScheduleType a = Some ''weekly'')
            \<and> (\<forall>t. calculateNextRun (ScheduleType a) t =
                      (if ScheduleType a = Some ''daily'' then t + 24 * Hour
                       else t + 7 * 24 * Hour))"
  proof
    fix a
    assume "a \<in> set (select_due (analysis_table w) (Now e (clock_reads w)))"
    then have k: "ScheduleType a = Some ''daily'' \<or> ScheduleType a = Some ''weekly''"
      by (simp add: select_due_iff)
    then show "ScheduleType a \<noteq> None
            \<and> (ScheduleType a = Some ''daily'' \<or> ScheduleType a = Some ''weekly'')
            \<and> (\<forall>t. calculateNextRun (ScheduleType a) t =
                      (if ScheduleType a = Some ''daily'' then t + 24 * Hour
                       else t + 7 * 24 * Hour))"
      by (auto simp: calculateNextRun_eq)
  qed
  from run kinds show ?thesis by (rule conjI)
qed

theorem C9_discovery_witness:
  "Scan env_ok = None
   \<and> select_due (analysis_table (world_A\<lparr>analysis_table := rows_mixed\<rparr>))
        (Now env_ok (clock_reads (world_A\<lparr>analysis_table := rows_mixed\<rparr>))) =
       [item_A, item_A\<lparr>ID := ''G'', ScheduleType := Some ''weekly'', NextScheduledRun := Some 1500\<rparr>]
   \<and> calculateNextRun (ScheduleType item_A) 2000 = 2000 + 24 * Hour
   \<and> calculateNextRun (ScheduleType (item_A\<lparr>ID := ''G'', ScheduleType := Some ''weekly'',
        NextScheduledRun := Some 1500\<rparr>)) 2000 = 2000 + 7 * 24 * Hour"
proof -
  have sc: "Scan env_ok = None"
    by (simp add: env_ok_def)
  have now: "Now env_ok (clock_reads (world_A\<lparr>analysis_table := rows_mixed\<rparr>)) = 2000"
    by (simp add: env_ok_def world_A_def)
  have sel: "select_due (analysis_table (world_A\<lparr>analysis_table := rows_mixed\<rparr>)) 2000 =
       [item_A, item_A\<lparr>ID := ''G'', ScheduleType := Some ''weekly'', NextScheduledRun := Some 1500\<rparr>]"
    by (simp add: select_due_filter rows_mixed_def item_A_def)
  have k: "ScheduleType item_A = Some ''daily''"
    by (simp add: item_A_def)
  from C9_discovery_excludes_fallback_kinds [OF sc, of service_0 "world_A\<lparr>analysis_table := rows_mixed\<rparr>"]
  have "\<forall>a \<in> set [item_A, item_A\<lparr>ID := ''G'', ScheduleType := Some ''weekly'',
                       NextScheduledRun := Some 1500\<rparr>].
          \<forall>t. calculateNextRun (ScheduleType a) t =
                      (if ScheduleType a = Some ''daily'' then t + 24 * Hour
                       else t + 7 * 24 * Hour)"
    unfolding now sel by blast
  then have "calculateNextRun (ScheduleType item_A) 2000 = 2000 + 24 * Hour"
    and "calculateNextRun (ScheduleType (item_A\<lparr>ID := ''G'', ScheduleType := Some ''weekly'',
        NextScheduledRun := Some 1500\<rparr>)) 2000 = 2000 + 7 * 24 * Hour"
    by (simp_all add: k)
  with sc sel now show ?thesis
    by simp
qed

lemma decode_fields_no_id:
  "\<forall>(key, v) \<in> set kvs. \<not> selects_id key \<Longrightarrow> decode_fields kvs cur = Inr cur"
  by (induction kvs arbitrary: cur) auto

lemma decode_fields_fails_iff:
  "(\<exists>err. decode_fields kvs cur = Inl err) \<longleftrightarrow>
   (\<exists>(key, v) \<in> set kvs. selects_id key \<and> v \<noteq> JNull \<and> (\<forall>s. v \<noteq> JString s))"
proof (induction kvs arbitrary: cur)
  case Nil
  show ?case by simp
next
  case (Cons kv kvs)
  obtain key v where kv: "kv = (key, v)" by (cases kv)
  show ?case
  proof (cases "selects_id key")
    case False
    with Cons.IH [of cur] show ?thesis by (simp add: kv)
  next
    case True
    show ?thesis
    proof (cases v)
      case JNull
      with True Cons.IH [of cur] show ?thesis by (simp add: kv)
    next
      case (JString s)
      with True Cons.IH [of s] show ?thesis by (simp add: kv)
    qed (use True in \<open>simp_all add: kv\<close>)
  qed
qed

lemma Decode_result_fails_iff:
  "(\<exists>err. Decode_result body = Inl err) \<longleftrightarrow>
   (case body of
      Inl err \<Rightarrow> True
    | Inr JNull \<Rightarrow> False
    | Inr (JObject kvs) \<Rightarrow>
        (\<exists>(key, v) \<in> set kvs. selects_id key \<and> v \<noteq> JNull \<and> (\<forall>s. v \<noteq> JString s))
    | Inr _ \<Rightarrow> True)"
proof (cases body)
  case (Inl err)
  then show ?thesis by (simp add: Decode_result_def)
next
  case (Inr j)
  then show ?thesis
    by (cases j) (simp_all add: Decode_result_def decode_fields_fails_iff)
qed

lemma Decode_result_no_id:
  "\<forall>(key, v) \<in> set kvs. \<not> selects_id key \<Longrightarrow> Decode_result (Inr (JObject kvs)) = Inr ''''"
  by (simp add: Decode_result_def decode_fields_no_id)

lemma create_not_created:
  "http_Post e (execute_url s a) = Inr resp \<Longrightarrow> StatusCode resp \<noteq> 201 \<Longrightarrow>
   createAnalysisExecution e s a w =
     (Inl (APIReturnedStatus (StatusCode resp)),
      w\<lparr>trace := trace w @ [HttpPost (execute_url s a) ''application/json'']\<rparr>)"
  by (simp add: createAnalysisExecution_def Let_def)

lemma create_not_decoded:
  "http_Post e (execute_url s a) = Inr resp \<Longrightarrow> StatusCode resp = 201 \<Longrightarrow>
   Decode_result (Body resp) = Inl err \<Longrightarrow>
   createAnalysisExecution e s a w =
     (Inl (FailedToDecodeResponse err),
      w\<lparr>trace := trace w @ [HttpPost (execute_url s a) ''application/json'']\<rparr>)"
  by (simp add: createAnalysisExecution_def Let_def)

lemma create_decoded:
  "http_Post e (execute_url s a) = Inr resp \<Longrightarrow> StatusCode resp = 201 \<Longrightarrow>
   Decode_result (Body resp) = Inr ident \<Longrightarrow>
   createAnalysisExecution e s a w =
     (Inr ident, w\<lparr>trace := trace w @ [HttpPost (execute_url s a) ''application/json'']\<rparr>)"
  by (simp add: createAnalysisExecution_def Let_def)

text \<open>
  Claim C10, as amended. After a response was received, \<^verbatim>\<open>processAnalysis\<close> stops at its
  first exit, with the HTTP call as its only effect, when the status is not 201 and
  also when the status is 201 and \<^verbatim>\<open>Decode\<close> returns an error. \<^verbatim>\<open>Decode\<close> returns an
  error exactly when the body yields no JSON value, or a value that is neither
  \<^verbatim>\<open>null\<close> nor an object, or an object with an \<^verbatim>\<open>id\<close> member that is neither a string
  nor \<^verbatim>\<open>null\<close>. An object without an \<^verbatim>\<open>id\<close> member is decoded without error, to the
  empty identifier.
\<close>

theorem C10_decode_error_aborts:
  assumes post: "http_Post e (execute_url s a) = Inr resp"
  shows "(StatusCode resp \<noteq> 201 \<longrightarrow>
            processAnalysis e s a w =
              (FailedToCreate (APIReturnedStatus (StatusCode resp)),
               w\<lparr>trace := trace w @ [HttpPost (execute_url s a) ''application/json'']\<rparr>))
       \<and> (\<forall>err. StatusCode resp = 201 \<and> Decode_result (Body resp) = Inl err \<longrightarrow>
            fst (createAnalysisExecution e s a w) = Inl (FailedToDecodeResponse err)
            \<and> processAnalysis e s a w =
              (FailedToCreate (FailedToDecodeResponse err),
               w\<lparr>trace := trace w @ [HttpPost (execute_url s a) ''application/json'']\<rparr>))
       \<and> (\<forall>ident. StatusCode resp = 201 \<and> Decode_result (Body resp) = Inr ident \<longrightarrow>
            fst (createAnalysisExecution e s a w) = Inr ident)
       \<and> ((\<exists>err. Decode_result (Body resp) = Inl err) \<longleftrightarrow>
            (case Body resp of
               Inl err \<Rightarrow> True
             | Inr JNull \<Rightarrow> False
             | Inr (JObject kvs) \<Rightarrow>
                 (\<exists>(key, v) \<in> set kvs. selects_id key \<and> v \<noteq> JNull \<and> (\<forall>s. v \<noteq> JString s))
             | Inr _ \<Rightarrow> True))
       \<and> (\<forall>kvs. Body resp = Inr (JObject kvs) \<and> (\<forall>(key, v) \<in> set kvs. \<not> selects_id key) \<longrightarrow>
            Decode_result (Body resp) = Inr '''')"
proof -
  have p1: "StatusCode resp \<noteq> 201 \<longrightarrow>
            processAnalysis e s a w =
              (FailedToCreate (APIReturnedStatus (StatusCode resp)),
               w\<lparr>trace := trace w @ [HttpPost (execute_url s a) ''application/json'']\<rparr>)"
    using create_not_created [OF post] process_create_failed by blast
  have p2: "\<forall>err. StatusCode resp = 201 \<and> Decode_result (Body resp) = Inl err \<longrightarrow>
            fst (createAnalysisExecution e s a w) = Inl (FailedToDecodeResponse err)
            \<and> processAnalysis e s a w =
              (FailedToCreate (FailedToDecodeResponse err),
               w\<lparr>trace := trace w @ [HttpPost (execute_url s a) ''application/json'']\<rparr>)"
  proof (intro allI impI)
    fix err
    assume "StatusCode resp = 201 \<and> Decode_result (Body resp) = Inl err"
    then have c: "createAnalysisExecution e s a w =
       (Inl (FailedToDecodeResponse err),
        w\<lparr>trace := trace w @ [HttpPost (execute_url s a) ''application/json'']\<rparr>)"
      using create_not_decoded [OF post] by blast
    from process_create_failed [OF c] c
    show "fst (createAnalysisExecution e s a w) = Inl (FailedToDecodeResponse err)
            \<and> processAnalysis e s a w =
              (FailedToCreate (FailedToDecodeResponse err),
               w\<lparr>trace := trace w @ [HttpPost (execute_url s a) ''application/json'']\<rparr>)"
      by simp
  qed
  have p3: "\<forall>ident. StatusCode resp = 201 \<and> Decode_result (Body resp) = Inr ident \<longrightarrow>
            fst (createAnalysisExecution e s a w) = Inr ident"
    using create_decoded [OF post] by (metis fst_conv)
  have p5: "\<forall>kvs. Body resp = Inr (JObject kvs) \<and> (\<forall>(key, v) \<in> set kvs. \<not> selects_id key) \<longrightarrow>
            Decode_result (Body resp) = Inr ''''"
    using Decode_result_no_id by metis
  from p1 p2 p3 Decode_result_fails_iff [of "Body resp"] p5 show ?thesis
    by (intro conjI)
qed

theorem C10_decode_error_witness:
  "processAnalysis env_created_number_id service_0 item_A world_A =
     (FailedToCreate (FailedToDecodeResponse UnmarshalTypeError),
      world_A\<lparr>trace := trace world_A @
         [HttpPost (execute_url service_0 item_A) ''application/json'']\<rparr>)
   \<and> processAnalysis env_status_500 service_0 item_A world_A =
     (FailedToCreate (APIReturnedStatus 500),
      world_A\<lparr>trace := trace world_A @
         [HttpPost (execute_url service_0 item_A) ''application/json'']\<rparr>)
   \<and> fst (createAnalysisExecution env_ok service_0 item_A world_A) = Inr ''E1''
   \<and> Decode_result (Inr (JObject [(''status'', JString ''ok'')])) = Inr ''''"
proof -
  have h1: "http_Post env_created_number_id (execute_url service_0 item_A) =
              Inr \<lparr>StatusCode = 201, Body = Inr (JObject [(''id'', JNumber 7)])\<rparr>"
    by (simp add: env_created_number_id_def)
  have d1: "Decode_result (Inr (JObject [(''id'', JNumber 7)])) = Inl UnmarshalTypeError"
    by (simp add: Decode_result_def selects_id_def)
  have h2: "http_Post env_status_500 (execute_url service_0 item_A) =
              Inr \<lparr>StatusCode = 500, Body = Inl (LibError ''EOF'')\<rparr>"
    by (simp add: env_status_500_def)
  have h3: "http_Post env_ok (execute_url service_0 item_A) =
              Inr \<lparr>StatusCode = 201, Body = Inr (JObject [(''id'', JString ''E1'')])\<rparr>"
    by (simp add: env_ok_def created_E1_def)
  have d3: "Decode_result (Inr (JObject [(''id'', JString ''E1'')])) = Inr ''E1''"
    by (simp add: Decode_result_def selects_id_def)
  have h4: "http_Post (env_ok\<lparr>http_Post := \<lambda>url. Inr \<lparr>StatusCode = 201,
               Body = Inr (JObject [(''status'', JString ''ok'')])\<rparr>\<rparr>)
              (execute_url service_0 item_A) =
              Inr \<lparr>StatusCode = 201, Body = Inr (JObject [(''status'', JString ''ok'')])\<rparr>"
    by simp
  have n4: "\<forall>(key, v) \<in> set [(''status'', JString ''ok'')]. \<not> selects_id key"
    by (simp add: selects_id_def)
  from C10_decode_error_aborts [OF h1, of world_A] d1
  have c1: "processAnalysis env_created_number_id service_0 item_A world_A =
     (FailedToCreate (FailedToDecodeResponse UnmarshalTypeError),
      world_A\<lparr>trace := trace world_A @
         [HttpPost (execute_url service_0 item_A) ''application/json'']\<rparr>)"
    by simp
  from C10_decode_error_aborts [OF h2, of world_A]
  have c2: "processAnalysis env_status_500 service_0 item_A world_A =
     (FailedToCreate (APIReturnedStatus 500),
      world_A\<lparr>trace := trace world_A @
         [HttpPost (execute_url service_0 item_A) ''application/json'']\<rparr>)"
    by simp
  from C10_decode_error_aborts [OF h3, of world_A] d3
  have c3: "fst (createAnalysisExecution env_ok service_0 item_A world_A) = Inr ''E1''"
    by simp
  from C10_decode_error_aborts [OF h4, of world_A] n4
  have c4: "Decode_result (Inr (JObject [(''status'', JString ''ok'')])) = Inr ''''"
    by simp
  from c1 c2 c3 c4 show ?thesis by (intro conjI)
qed

text \<open>
  The claim as first stated fails: a 201 response whose body is the empty object is no
  failure. The execution identifier is the empty string, the message is sent with it
  and the item is rescheduled.
\<close>

theorem C10_created_without_id_counterexample:
  "\<not> isl (fst (createAnalysisExecution env_created_no_id service_0 item_A world_A))
   \<and> fst (createAnalysisExecution env_created_no_id service_0 item_A world_A) = Inr ''''
   \<and> processAnalysis env_created_no_id service_0 item_A world_A =
       (Processed '''' (2000 + 24 * Hour),
        \<lparr>analysis_table = [item_A\<lparr>LastScheduledRun := Some 2000,
                                   NextScheduledRun := Some (2000 + 24 * Hour)\<rparr>],
         trace = [HttpPost ''http://api:3000/org/O1/projects/P1/analyses/A/execute''
                    ''application/json'',
                  SendMessage ''api_request'' ''analysis_id='',
                  DbUpdate ''A'' 2000 (2000 + 24 * Hour)],
         clock_reads = 1\<rparr>)"
proof -
  have c: "createAnalysisExecution env_created_no_id service_0 item_A world_A =
      (Inr '''', world_A\<lparr>trace := [HttpPost ''http://api:3000/org/O1/projects/P1/analyses/A/execute''
                    ''application/json'']\<rparr>)"
    by (simp add: createAnalysisExecution_def execute_url_def Decode_result_def
          env_created_no_id_def sample_defs)
  have p: "processAnalysis env_created_no_id service_0 item_A world_A =
       (Processed '''' (2000 + 24 * Hour),
        \<lparr>analysis_table = [item_A\<lparr>LastScheduledRun := Some 2000,
                                   NextScheduledRun := Some (2000 + 24 * Hour)\<rparr>],
         trace = [HttpPost ''http://api:3000/org/O1/projects/P1/analyses/A/execute''
                    ''application/json'',
                  SendMessage ''api_request'' ''analysis_id='',
                  DbUpdate ''A'' 2000 (2000 + 24 * Hour)],
         clock_reads = 1\<rparr>)"
    unfolding processAnalysis_def c
    by (simp add: sendAnalysisMessage_def time_Now_def calculateNextRun_def Add_def
          update_schedule_def Let_def env_created_no_id_def sample_defs)
  from c p show ?thesis by simp
qed

end
